theory Spec2Isabelle
  imports Complex_Main "HOL-Library.Char_ord" "HOL-Library.List_Lexorder" "HOL-Library.AList"
begin

section \<open>Strings: the Python string operations the module uses\<close>

text \<open>
  Formulas and column names are ASCII strings. The character classes below are the ASCII
  part of Python's \<^verbatim>\<open>str.isspace\<close>, of the regular-expression class \<^verbatim>\<open>\w\<close> and of
  \<^verbatim>\<open>[a-z]\<close>.
\<close>

definition is_space :: "char \<Rightarrow> bool" where
  "is_space c \<longleftrightarrow> c \<in> set [CHR '' '', CHR 0x09, CHR 0x0A, CHR 0x0B, CHR 0x0C, CHR 0x0D,
                            CHR 0x1C, CHR 0x1D, CHR 0x1E, CHR 0x1F]"

definition is_lower :: "char \<Rightarrow> bool" where
  "is_lower c \<longleftrightarrow> CHR ''a'' \<le> c \<and> c \<le> CHR ''z''"

definition is_word :: "char \<Rightarrow> bool" where
  "is_word c \<longleftrightarrow> is_lower c \<or> (CHR ''A'' \<le> c \<and> c \<le> CHR ''Z'')
                 \<or> (CHR ''0'' \<le> c \<and> c \<le> CHR ''9'') \<or> c = CHR ''_''"

text \<open>\<^verbatim>\<open>s.strip()\<close>: leading and trailing whitespace removed.\<close>

definition strip :: "string \<Rightarrow> string" where
  "strip s = rev (dropWhile is_space (rev (dropWhile is_space s)))"

text \<open>\<^verbatim>\<open>s.split(c)\<close> for a one-character separator: always at least one piece.\<close>

fun split_on :: "char \<Rightarrow> string \<Rightarrow> string list" where
  "split_on sep [] = [[]]"
| "split_on sep (x # xs) =
     (if x = sep then [] # split_on sep xs
      else (case split_on sep xs of [] \<Rightarrow> [[x]] | piece # pieces \<Rightarrow> (x # piece) # pieces))"

text \<open>\<^verbatim>\<open>s.replace(p, '')\<close> for a non-empty \<open>p\<close>: the occurrences of \<open>p\<close> are deleted from left
  to right, without rescanning.\<close>

function (sequential) remove_all :: "string \<Rightarrow> string \<Rightarrow> string" where
  "remove_all p [] = []"
| "remove_all p (x # xs) =
     (if p \<noteq> [] \<and> take (length p) (x # xs) = p then remove_all p (drop (length p) (x # xs))
      else x # remove_all p xs)"
  by pat_completeness auto
termination
  by (relation "measure (\<lambda>(p, s). length s)") auto

section \<open>The regular expressions\<close>

text \<open>
  \<^verbatim>\<open>re.search(r'\b0\b', rhs)\<close>: a character \<open>0\<close> with no word character directly before
  it and none directly after it. The flag says whether the previous character is a word
  character.
\<close>

fun zero_token_from :: "bool \<Rightarrow> string \<Rightarrow> bool" where
  "zero_token_from prev [] = False"
| "zero_token_from prev (c # cs) =
     ((c = CHR ''0'' \<and> \<not> prev \<and> (case cs of [] \<Rightarrow> True | d # _ \<Rightarrow> \<not> is_word d))
      \<or> zero_token_from (is_word c) cs)"

definition search_zero :: "string \<Rightarrow> bool" where
  "search_zero rhs = zero_token_from False rhs"

text \<open>
  The negative lookahead \<^verbatim>\<open>(?![^\(]*\))\<close> fails exactly when the first parenthesis at or
  after the position is a closing one.
\<close>

definition closes_first :: "string \<Rightarrow> bool" where
  "closes_first s =
     (case dropWhile (\<lambda>c. c \<noteq> CHR ''('' \<and> c \<noteq> CHR '')'') s of
        [] \<Rightarrow> False | c # _ \<Rightarrow> c = CHR '')'')"

text \<open>
  \<^verbatim>\<open>re.findall(r'[a-z]\w*(?![^\(]*\))', rhs)\<close>. At a lower-case letter the longest run of
  word characters is taken; when the lookahead rejects it every shorter run is rejected
  too (the characters given back are not parentheses), and the scan moves on by one
  character. After a match the scan resumes behind it.
\<close>

function findall_fixed :: "string \<Rightarrow> string list" where
  "findall_fixed [] = []"
| "findall_fixed (c # cs) =
     (if is_lower c \<and> \<not> closes_first (dropWhile is_word cs)
      then (c # takeWhile is_word cs) # findall_fixed (dropWhile is_word cs)
      else findall_fixed cs)"
  by pat_completeness auto
termination
  by (relation "measure length") (auto simp: le_imp_less_Suc length_dropWhile_le)

text \<open>
  \<^verbatim>\<open>re.findall(r'\(([^\|]+)\|([^\)]+)\)', rhs)\<close>: after an opening parenthesis, everything up
  to the first bar (at least one character), then everything up to the first closing
  parenthesis (at least one character). \<open>match_group\<close> is one attempt directly behind an
  opening parenthesis: the two groups and the text behind the match.
\<close>

definition match_group :: "string \<Rightarrow> ((string \<times> string) \<times> string) option" where
  "match_group cs =
     (case dropWhile (\<lambda>x. x \<noteq> CHR ''|'') cs of [] \<Rightarrow> None
      | b # s1 \<Rightarrow>
         (case dropWhile (\<lambda>x. x \<noteq> CHR '')'') s1 of [] \<Rightarrow> None
          | e # s2 \<Rightarrow>
             if takeWhile (\<lambda>x. x \<noteq> CHR ''|'') cs \<noteq> [] \<and> takeWhile (\<lambda>x. x \<noteq> CHR '')'') s1 \<noteq> []
             then Some ((takeWhile (\<lambda>x. x \<noteq> CHR ''|'') cs, takeWhile (\<lambda>x. x \<noteq> CHR '')'') s1), s2)
             else None))"

lemma dropWhile_Cons_shorter: "dropWhile P xs = y # ys \<Longrightarrow> length ys < length xs"
  by (metis length_dropWhile_le length_Cons less_eq_Suc_le)

lemma match_group_shorter: "match_group cs = Some (g, rest) \<Longrightarrow> length rest < length cs"
  by (auto simp: match_group_def split: list.splits if_splits dest!: dropWhile_Cons_shorter)

function findall_groups :: "string \<Rightarrow> (string \<times> string) list" where
  "findall_groups [] = []"
| "findall_groups (c # cs) =
     (if c = CHR ''(''
      then (case match_group cs of
              Some (g, rest) \<Rightarrow> g # findall_groups rest
            | None \<Rightarrow> findall_groups cs)
      else findall_groups cs)"
  by pat_completeness auto
termination
  by (relation "measure length") (auto dest: match_group_shorter)

text \<open>
  \<^verbatim>\<open>re.findall(r'\((.+?)\|(.+?)\)', formula)\<close>: the dot does not match a newline. After an
  opening parenthesis one character is taken whatever it is, then the shortest run up to
  a bar; after the bar one character whatever it is, then the shortest run up to a
  closing parenthesis. A longer first group cannot succeed where the shortest fails.
\<close>

definition no_bar_nl :: "char \<Rightarrow> bool" where
  "no_bar_nl x \<longleftrightarrow> x \<noteq> CHR ''|'' \<and> x \<noteq> CHR 0x0A"

definition no_close_nl :: "char \<Rightarrow> bool" where
  "no_close_nl x \<longleftrightarrow> x \<noteq> CHR '')'' \<and> x \<noteq> CHR 0x0A"

text \<open>One attempt directly behind an opening parenthesis: the two groups and the text
  behind the match.\<close>

definition match_term :: "string \<Rightarrow> ((string \<times> string) \<times> string) option" where
  "match_term cs =
     (case cs of [] \<Rightarrow> None
      | c1 # s1 \<Rightarrow>
         if c1 = CHR 0x0A then None
         else (case dropWhile no_bar_nl s1 of [] \<Rightarrow> None
               | b # s2 \<Rightarrow>
                  if b \<noteq> CHR ''|'' then None
                  else (case s2 of [] \<Rightarrow> None
                        | c2 # s3 \<Rightarrow>
                           if c2 = CHR 0x0A then None
                           else (case dropWhile no_close_nl s3 of [] \<Rightarrow> None
                                 | e # s4 \<Rightarrow>
                                    if e \<noteq> CHR '')'' then None
                                    else Some ((c1 # takeWhile no_bar_nl s1,
                                                c2 # takeWhile no_close_nl s3), s4)))))"

lemma match_term_shorter: "match_term cs = Some (g, rest) \<Longrightarrow> length rest < length cs"
  by (auto simp: match_term_def split: list.splits if_splits dest!: dropWhile_Cons_shorter)

function findall_terms :: "string \<Rightarrow> (string \<times> string) list" where
  "findall_terms [] = []"
| "findall_terms (c # cs) =
     (if c = CHR ''(''
      then (case match_term cs of
              Some (g, rest) \<Rightarrow> g # findall_terms rest
            | None \<Rightarrow> findall_terms cs)
      else findall_terms cs)"
  by pat_completeness auto
termination
  by (relation "measure length") (auto dest: match_term_shorter)

section \<open>Errors\<close>

text \<open>
  What the module can raise: \<open>FormatError\<close> is the \<^verbatim>\<open>ValueError\<close> of unpacking
  \<^verbatim>\<open>formula.split('~')\<close> into two names, \<open>MissingGroupError\<close> the \<^verbatim>\<open>ValueError\<close> raised
  for a group variable that is not in the data, \<open>KeyError\<close> a failed subscript,
  \<open>ScaleError\<close> the \<^verbatim>\<open>ValueError\<close> of the generator for a negative scale and \<open>TypeError\<close>
  arithmetic on a cell that is not a number.
\<close>

datatype error = FormatError | MissingGroupError string | KeyError string | ScaleError | TypeError

section \<open>The formula parser\<close>

text \<open>Lines 341 and 342: what the loop over the random-effect terms appends to the list of
  fixed-effect names.\<close>

definition random_term_names :: "(string \<times> string) list \<Rightarrow> string list" where
  "random_term_names random_effects =
     concat (map (\<lambda>reffect. split_on CHR ''+'' (remove_all ''1 + '' (fst reffect)))
                 random_effects)"

text \<open>\<^verbatim>\<open>_extract_variable_names\<close>. \<^verbatim>\<open>sorted(list(set(xs)))\<close> is \<open>sort (remdups xs)\<close>, in the
  order of the character codes.\<close>

definition extract_variable_names :: "string \<Rightarrow> error + (string \<times> string list \<times> string list)" where
  "extract_variable_names formula =
     (case split_on CHR ''~'' formula of
        [dependent', rhs] \<Rightarrow>
          (let fixed_effects = findall_fixed rhs;
               random_effects = findall_groups rhs;
               fixed_effects = fixed_effects @ random_term_names random_effects
           in Inr (strip dependent',
                   sort (remdups (map strip fixed_effects)),
                   sort (remdups (map (\<lambda>reffect. strip (snd reffect)) random_effects))))
      | _ \<Rightarrow> Inl FormatError)"

section \<open>Tables\<close>

text \<open>
  A data frame: its number of rows and its columns in order, each a name and one cell per
  row. A cell is a number or a label. Arithmetic is cell by cell and fails on a label.

  Numbers are the exact reals. The columns of the source are numpy arrays of \<^verbatim>\<open>int64\<close>,
  which wraps around silently, or of \<^verbatim>\<open>float64\<close>, which rounds; neither is in the model.
  The theorems of the last section that quantify over tables, coefficients or generators
  compare two runs, say which columns are written, say that the call returns, or name
  the exception; none of them gives the value of a sum or a product, and the comparison
  with a column of zeros uses only that adding zero times a number changes nothing.
  Values are computed at closed instances only, whose numbers and intermediate results
  are small integers and dyadic fractions, exact in both machine types.
\<close>

datatype cell = Num real | Lbl string

record table =
  nrows :: nat
  cols :: "(string \<times> cell list) list"

definition columns :: "table \<Rightarrow> string list" where
  "columns t = map fst (cols t)"

text \<open>\<^verbatim>\<open>t[c] = v\<close>: an existing column is overwritten in place, a new one is appended.\<close>

definition set_col :: "string \<Rightarrow> cell list \<Rightarrow> table \<Rightarrow> table" where
  "set_col c v t = t\<lparr>cols := AList.update c v (cols t)\<rparr>"

fun numeric :: "cell list \<Rightarrow> real list option" where
  "numeric [] = Some []"
| "numeric (Num x # cs) = map_option ((#) x) (numeric cs)"
| "numeric (Lbl l # cs) = None"

text \<open>\<^verbatim>\<open>t[c]\<close> read as numbers.\<close>

definition num_col :: "table \<Rightarrow> string \<Rightarrow> error + real list" where
  "num_col t c =
     (case map_of (cols t) c of
        None \<Rightarrow> Inl (KeyError c)
      | Some cs \<Rightarrow> (case numeric cs of None \<Rightarrow> Inl TypeError | Some xs \<Rightarrow> Inr xs))"

text \<open>\<^verbatim>\<open>t[c] += vals\<close>.\<close>

definition add_to_col :: "string \<Rightarrow> real list \<Rightarrow> table \<Rightarrow> error + table" where
  "add_to_col c vals t =
     (case num_col t c of
        Inl e \<Rightarrow> Inl e
      | Inr xs \<Rightarrow> Inr (set_col c (map Num (map2 (+) xs vals)) t))"

text \<open>\<^verbatim>\<open>Series.unique()\<close>: the distinct values in order of first appearance.\<close>

fun unique_from :: "'a list \<Rightarrow> 'a list \<Rightarrow> 'a list" where
  "unique_from seen [] = []"
| "unique_from seen (x # xs) =
     (if x \<in> set seen then unique_from seen xs else x # unique_from (x # seen) xs)"

definition unique :: "'a list \<Rightarrow> 'a list" where
  "unique xs = unique_from [] xs"

text \<open>\<^verbatim>\<open>Series.map(d)\<close> for a dictionary \<open>d\<close> of numbers. A label that is not a key gives a
  missing value in pandas; here every label of the column is a key, and the model puts 0
  in the branch that is never taken.\<close>

definition map_values :: "(cell \<times> real) list \<Rightarrow> cell list \<Rightarrow> real list" where
  "map_values d gs = map (\<lambda>g. case map_of d g of Some v \<Rightarrow> v | None \<Rightarrow> 0) gs"

section \<open>The random generator\<close>

text \<open>
  A generator is the sequence of standard normal variates it is still going to produce.
  \<^verbatim>\<open>rng.normal(0, scale)\<close> is \<open>0 + scale * z\<close> for the next variate \<open>z\<close>, and raises for a
  negative scale before drawing. \<^verbatim>\<open>np.random.default_rng(seed)\<close> is a parameter
  \<open>default_rng\<close> of the model.
\<close>

type_synonym rng = "nat \<Rightarrow> real"

definition normal :: "real \<Rightarrow> rng \<Rightarrow> (error + real) \<times> rng" where
  "normal scale r =
     (if scale < 0 then (Inl ScaleError, r) else (Inr (0 + scale * r 0), \<lambda>n. r (Suc n)))"

definition normal_n :: "real \<Rightarrow> nat \<Rightarrow> rng \<Rightarrow> (error + real list) \<times> rng" where
  "normal_n scale n r =
     (if scale < 0 then (Inl ScaleError, r)
      else (Inr (map (\<lambda>i. 0 + scale * r i) [0..<n]), \<lambda>k. r (n + k)))"

text \<open>\<^verbatim>\<open>{group: rng_.normal(0, std_dev) for group in groups}\<close>.\<close>

fun draw_values :: "real \<Rightarrow> cell list \<Rightarrow> rng \<Rightarrow> (error + (cell \<times> real) list) \<times> rng" where
  "draw_values std_dev [] r = (Inr [], r)"
| "draw_values std_dev (g # gs) r =
     (case normal std_dev r of
        (Inl e, r') \<Rightarrow> (Inl e, r')
      | (Inr v, r') \<Rightarrow>
          (case draw_values std_dev gs r' of
             (Inl e, r'') \<Rightarrow> (Inl e, r'')
           | (Inr vs, r'') \<Rightarrow> (Inr ((g, v) # vs), r'')))"

section \<open>The experiment and its runner\<close>

text \<open>What the closure \<^verbatim>\<open>run\<close> captures from \<^verbatim>\<open>lmm_experiment\<close>. A specification that is
  \<^verbatim>\<open>None\<close> or empty becomes the empty dictionary.\<close>

record lmm_closure =
  formula :: string
  fixed_effects :: "string \<rightharpoonup> real"
  random_effects :: "string \<rightharpoonup> (string \<rightharpoonup> real)"
  fixed_variables :: "string list"

definition lmm_experiment ::
  "string \<Rightarrow> (string \<rightharpoonup> real) option \<Rightarrow> (string \<rightharpoonup> (string \<rightharpoonup> real)) option \<Rightarrow> error + lmm_closure" where
  "lmm_experiment f fe re =
     (case extract_variable_names f of
        Inl e \<Rightarrow> Inl e
      | Inr (dependent', fixed_vars, random_vars) \<Rightarrow>
          Inr \<lparr>formula = f,
               fixed_effects = (case fe of None \<Rightarrow> Map.empty | Some m \<Rightarrow> m),
               random_effects = (case re of None \<Rightarrow> Map.empty | Some m \<Rightarrow> m),
               fixed_variables = fixed_vars\<rparr>)"

text \<open>Line 209: \<^verbatim>\<open>'1' in fixed_effects or re.search(r'\b0\b', rhs) is None\<close>.\<close>

definition has_intercept :: "(string \<rightharpoonup> real) \<Rightarrow> string \<Rightarrow> bool" where
  "has_intercept fe rhs \<longleftrightarrow> ''1'' \<in> dom fe \<or> \<not> search_zero rhs"

text \<open>Lines 211 to 214: the dependent column of the copy is set to the intercept or 0.\<close>

definition init_dependent :: "(string \<rightharpoonup> real) \<Rightarrow> bool \<Rightarrow> string \<Rightarrow> table \<Rightarrow> table" where
  "init_dependent fe has_icpt dependent_var conditions =
     set_col dependent_var
       (replicate (nrows conditions)
          (Num (if has_icpt then (case fe ''Intercept'' of Some a \<Rightarrow> a | None \<Rightarrow> 0) else 0)))
       conditions"

text \<open>Lines 217 to 219: the fixed effects.\<close>

fun add_fixed_effects :: "(string \<rightharpoonup> real) \<Rightarrow> string \<Rightarrow> string list \<Rightarrow> table \<Rightarrow> error + table" where
  "add_fixed_effects fe dependent_var [] ed = Inr ed"
| "add_fixed_effects fe dependent_var (var # vars) ed =
     (if var \<in> set (columns ed)
      then (case num_col ed var of
              Inl e \<Rightarrow> Inl e
            | Inr xs \<Rightarrow>
                (case add_to_col dependent_var
                        (map (\<lambda>x. (case fe var of Some b \<Rightarrow> b | None \<Rightarrow> 0) * x) xs) ed of
                   Inl e \<Rightarrow> Inl e
                 | Inr ed' \<Rightarrow> add_fixed_effects fe dependent_var vars ed'))
      else add_fixed_effects fe dependent_var vars ed)"

text \<open>Lines 233 to 242: one part of a random-effect term.\<close>

definition process_part ::
  "(string \<rightharpoonup> (string \<rightharpoonup> real)) \<Rightarrow> bool \<Rightarrow> string \<Rightarrow> string \<Rightarrow> string \<Rightarrow> table \<Rightarrow> rng
     \<Rightarrow> (error + table) \<times> rng" where
  "process_part re has_icpt dependent_var group_var part0 ed r =
     (let part = strip (if part0 = ''1'' then ''Intercept'' else part0)
      in case re group_var of
           None \<Rightarrow> (Inl (KeyError group_var), r)
         | Some spec \<Rightarrow>
             (let std_dev = (case spec part of Some sd \<Rightarrow> sd | None \<Rightarrow> 0.5)
              in case map_of (cols ed) group_var of
                   None \<Rightarrow> (Inl (KeyError group_var), r)
                 | Some groups \<Rightarrow>
                     (case draw_values std_dev (unique groups) r of
                        (Inl e, r') \<Rightarrow> (Inl e, r')
                      | (Inr random_effect_values, r') \<Rightarrow>
                          if part = ''Intercept''
                          then (if has_icpt
                                then (add_to_col dependent_var
                                        (map_values random_effect_values groups) ed, r')
                                else (Inr ed, r'))
                          else if part \<in> set (columns ed)
                          then (case num_col ed part of
                                  Inl e \<Rightarrow> (Inl e, r')
                                | Inr xs \<Rightarrow>
                                    (add_to_col dependent_var
                                       (map2 (*) (map_values random_effect_values groups) xs)
                                       ed, r'))
                          else (Inr ed, r'))))"

fun process_parts ::
  "(string \<rightharpoonup> (string \<rightharpoonup> real)) \<Rightarrow> bool \<Rightarrow> string \<Rightarrow> string \<Rightarrow> string list \<Rightarrow> table \<Rightarrow> rng
     \<Rightarrow> (error + table) \<times> rng" where
  "process_parts re has_icpt dependent_var group_var [] ed r = (Inr ed, r)"
| "process_parts re has_icpt dependent_var group_var (part # parts) ed r =
     (case process_part re has_icpt dependent_var group_var part ed r of
        (Inl e, r') \<Rightarrow> (Inl e, r')
      | (Inr ed', r') \<Rightarrow> process_parts re has_icpt dependent_var group_var parts ed' r')"

text \<open>Lines 223 to 242: the random-effect terms in the order of the formula.\<close>

fun process_terms ::
  "(string \<rightharpoonup> (string \<rightharpoonup> real)) \<Rightarrow> bool \<Rightarrow> string \<Rightarrow> (string \<times> string) list \<Rightarrow> table \<Rightarrow> rng
     \<Rightarrow> (error + table) \<times> rng" where
  "process_terms re has_icpt dependent_var [] ed r = (Inr ed, r)"
| "process_terms re has_icpt dependent_var (term # terms) ed r =
     (let group_var = strip (snd term)
      in if group_var \<notin> set (columns ed) then (Inl (MissingGroupError group_var), r)
         else (case process_parts re has_icpt dependent_var group_var
                      (split_on CHR ''+'' (fst term)) ed r of
                 (Inl e, r') \<Rightarrow> (Inl e, r')
               | (Inr ed', r') \<Rightarrow> process_terms re has_icpt dependent_var terms ed' r'))"

text \<open>Line 245: the noise.\<close>

definition add_noise :: "string \<Rightarrow> real \<Rightarrow> table \<Rightarrow> rng \<Rightarrow> (error + table) \<times> rng" where
  "add_noise dependent_var added_noise ed r =
     (case normal_n added_noise (nrows ed) r of
        (Inl e, r') \<Rightarrow> (Inl e, r')
      | (Inr noise, r') \<Rightarrow> (add_to_col dependent_var noise ed, r'))"

text \<open>
  Lines 203 to 247, the body of \<^verbatim>\<open>run\<close> behind the choice of the generator: from the
  contents of the conditions table and the generator \<open>rng'\<close> (the source's \<^verbatim>\<open>rng_\<close>) to
  the contents of the returned table, or the exception, and the generator after the call.
\<close>

definition simulate :: "lmm_closure \<Rightarrow> table \<Rightarrow> real \<Rightarrow> rng \<Rightarrow> (error + table) \<times> rng" where
  "simulate lmm conditions added_noise rng' =
     (case split_on CHR ''~'' (formula lmm) of
        [dependent_var0, rhs] \<Rightarrow>
          (let dependent_var = strip dependent_var0;
               has_icpt = has_intercept (fixed_effects lmm) rhs;
               experiment_data = init_dependent (fixed_effects lmm) has_icpt dependent_var conditions
           in case add_fixed_effects (fixed_effects lmm) dependent_var (fixed_variables lmm)
                     experiment_data of
                Inl e \<Rightarrow> (Inl e, rng')
              | Inr experiment_data \<Rightarrow>
                  (case process_terms (random_effects lmm) has_icpt dependent_var
                          (findall_terms (formula lmm)) experiment_data rng' of
                     (Inl e, r) \<Rightarrow> (Inl e, r)
                   | (Inr experiment_data, r) \<Rightarrow> add_noise dependent_var added_noise experiment_data r))
      | _ \<Rightarrow> (Inl FormatError, rng'))"

text \<open>
  The call itself, on a store of tables. \<open>frames\<close> holds the data frames that exist, a
  table is referred to by its position, and \<open>generator\<close> is the generator of the
  enclosing scope, shared by all calls. \<^verbatim>\<open>conditions.copy()\<close> makes a new frame; every
  assignment of the body writes to that frame, which holds the result when the call
  returns and is unreachable when it raises. With a \<open>random_state\<close> the call draws from
  a generator of its own.
\<close>

record state =
  frames :: "table list"
  generator :: rng

definition run ::
  "(int \<Rightarrow> rng) \<Rightarrow> lmm_closure \<Rightarrow> nat \<Rightarrow> real \<Rightarrow> int option \<Rightarrow> state \<Rightarrow> (error + nat) \<times> state" where
  "run default_rng lmm conditions added_noise random_state s =
     (let rng' = (case random_state of Some seed \<Rightarrow> default_rng seed | None \<Rightarrow> generator s);
          result = simulate lmm (frames s ! conditions) added_noise rng';
          s' = (case random_state of Some seed \<Rightarrow> s | None \<Rightarrow> s\<lparr>generator := snd result\<rparr>)
      in case fst result of
           Inl e \<Rightarrow> (Inl e, s')
         | Inr experiment_data \<Rightarrow>
             (Inr (length (frames s)), s'\<lparr>frames := frames s @ [experiment_data]\<rparr>))"

text \<open>What the caller gets from a call: the exception, or the contents of the returned frame.\<close>

definition outcome :: "(error + nat) \<times> state \<Rightarrow> error + table" where
  "outcome res = (case fst res of Inl e \<Rightarrow> Inl e | Inr ref \<Rightarrow> Inr (frames (snd res) ! ref))"

text \<open>\<^verbatim>\<open>ground_truth = partial(run, added_noise=0.0)\<close>.\<close>

definition ground_truth ::
  "(int \<Rightarrow> rng) \<Rightarrow> lmm_closure \<Rightarrow> nat \<Rightarrow> int option \<Rightarrow> state \<Rightarrow> (error + nat) \<times> state" where
  "ground_truth default_rng lmm conditions random_state s =
     run default_rng lmm conditions 0 random_state s"

text \<open>
  Construction followed by one call, on the contents of the tables:
  \<^verbatim>\<open>lmm_experiment(formula, fixed_effects, random_effects).run(conditions, added_noise)\<close>
  drawing from the generator \<open>r\<close>.
\<close>

definition experiment_run ::
  "string \<Rightarrow> (string \<rightharpoonup> real) option \<Rightarrow> (string \<rightharpoonup> (string \<rightharpoonup> real)) option
     \<Rightarrow> table \<Rightarrow> real \<Rightarrow> rng \<Rightarrow> (error + table) \<times> rng" where
  "experiment_run f fe re conditions added_noise r =
     (case lmm_experiment f fe re of
        Inl e \<Rightarrow> (Inl e, r)
      | Inr lmm \<Rightarrow> simulate lmm conditions added_noise r)"

section \<open>Vocabulary of the statements\<close>

text \<open>A name the pattern \<^verbatim>\<open>[a-z]\w*\<close> matches as a whole, a name of word characters, and a
  name that begins with a lower-case letter.\<close>

definition is_ident :: "string \<Rightarrow> bool" where
  "is_ident x = (case x of [] \<Rightarrow> False | c # cs \<Rightarrow> is_lower c \<and> list_all is_word cs)"

definition starts_lower :: "string \<Rightarrow> bool" where
  "starts_lower x = (case x of [] \<Rightarrow> False | c # cs \<Rightarrow> is_lower c)"

text \<open>The working copy \<open>ed\<close> differs from the table \<open>t\<close> at most in the column \<open>dv\<close>, which is
  overwritten where it stands or appended.\<close>

definition only_written :: "string \<Rightarrow> table \<Rightarrow> table \<Rightarrow> bool" where
  "only_written dv t ed \<longleftrightarrow> nrows ed = nrows t \<and> (\<exists>vals. cols ed = AList.update dv vals (cols t))"







text \<open>
  Lines 233 and 234: the name under which a part of a term list is looked up in the
  specification and among the columns; the standard deviation line 235 finds for it; and
  the names whose columns the runner multiplies: the fixed-effect variables of the parser
  and the parts of the random-effect terms.
\<close>

definition part_name :: "string \<Rightarrow> string" where
  "part_name part0 = strip (if part0 = ''1'' then ''Intercept'' else part0)"

definition std_dev_of :: "(string \<rightharpoonup> real) \<Rightarrow> string \<Rightarrow> real" where
  "std_dev_of spec part0 = (case spec (part_name part0) of Some sd \<Rightarrow> sd | None \<Rightarrow> 0.5)"

definition operands :: "lmm_closure \<Rightarrow> string list" where
  "operands lmm =
     fixed_variables lmm @
     concat (map (\<lambda>tm. map part_name (split_on CHR ''+'' (fst tm))) (findall_terms (formula lmm)))"

text \<open>The columns of the table that go by one of the names hold numbers only.\<close>

definition numeric_on :: "string list \<Rightarrow> table \<Rightarrow> bool" where
  "numeric_on names t \<longleftrightarrow>
     list_all (\<lambda>c. case map_of (cols t) c of None \<Rightarrow> True | Some cs \<Rightarrow> numeric cs \<noteq> None) names"

text \<open>
  A random-effect term the runner can process: its group variable is one of the names,
  has an entry in the random-effects specification, and no standard deviation of the
  term is negative.
\<close>

definition term_ok ::
  "(string \<rightharpoonup> (string \<rightharpoonup> real)) \<Rightarrow> string list \<Rightarrow> string \<times> string \<Rightarrow> bool" where
  "term_ok re names tm \<longleftrightarrow>
     strip (snd tm) \<in> set names \<and>
     (case re (strip (snd tm)) of
        None \<Rightarrow> False
      | Some spec \<Rightarrow> list_all (\<lambda>part. 0 \<le> std_dev_of spec part) (split_on CHR ''+'' (fst tm)))"

section \<open>Characters and strings\<close>

lemma is_word_not_special:
  "is_word c \<Longrightarrow> c \<noteq> CHR ''('' \<and> c \<noteq> CHR '')'' \<and> c \<noteq> CHR ''~'' \<and> c \<noteq> CHR ''|'' \<and> c \<noteq> CHR ''+'' \<and> \<not> is_space c"
  by (auto simp: is_word_def is_lower_def is_space_def)

lemma is_lower_word: "is_lower c \<Longrightarrow> is_word c"
  by (simp add: is_word_def)

lemma is_lower_not_zero: "is_lower c \<Longrightarrow> c \<noteq> CHR ''0''"
  by (auto simp: is_lower_def)

lemma zero_token_word: "list_all is_word cs \<Longrightarrow> \<not> zero_token_from True cs"
  by (induction cs) auto

lemma dropWhile_hd: "xs \<noteq> [] \<Longrightarrow> \<not> P (hd xs) \<Longrightarrow> dropWhile P xs = xs"
  by (cases xs) auto

lemma strip_id: "s \<noteq> [] \<Longrightarrow> \<not> is_space (hd s) \<Longrightarrow> \<not> is_space (last s) \<Longrightarrow> strip s = s"
  by (simp add: strip_def dropWhile_hd hd_rev)

lemma is_word_not_space: "is_word c \<Longrightarrow> \<not> is_space c"
  using is_word_not_special by blast

lemma words_hd_last: "list_all is_word s \<Longrightarrow> s \<noteq> [] \<Longrightarrow> is_word (hd s) \<and> is_word (last s)"
  by (simp add: list_all_iff)

lemma strip_words: "list_all is_word s \<Longrightarrow> strip s = s"
proof (cases "s = []")
  case True
  then show ?thesis by (simp add: strip_def)
next
  case False
  assume w: "list_all is_word s"
  from words_hd_last [OF w False] have "\<not> is_space (hd s)" "\<not> is_space (last s)"
    by (simp_all add: is_word_not_space)
  with False show ?thesis
    by (simp add: strip_id)
qed

lemma is_space_blank: "is_space (CHR '' '')"
  by (simp add: is_space_def)

lemma ident_words: "is_ident x \<Longrightarrow> list_all is_word x \<and> x \<noteq> []"
  by (auto simp: is_ident_def is_lower_word split: list.splits)

lemma takeWhile_all: "list_all P xs \<Longrightarrow> takeWhile P xs = xs"
  by (induction xs) auto

lemma dropWhile_all: "list_all P xs \<Longrightarrow> dropWhile P xs = []"
  by (induction xs) auto

section \<open>Columns\<close>

lemma numeric_map_Num [simp]: "numeric (map Num xs) = Some xs"
  by (induction xs) auto

lemma numeric_map_Num_fun [simp]: "numeric (map (\<lambda>x. Num (f x)) xs) = Some (map f xs)"
  by (induction xs) auto

lemma numeric_replicate [simp]: "numeric (replicate n (Num a)) = Some (replicate n a)"
  by (induction n) auto

lemma map_of_set_col: "map_of (cols (set_col c v t)) k = (if k = c then Some v else map_of (cols t) k)"
  by (simp add: set_col_def AList.update_conv')

lemma columns_set_col: "set (columns (set_col c v t)) = insert c (set (columns t))"
  by (simp add: set_col_def columns_def AList.dom_update)

lemma set_col_twice: "set_col c v (set_col c v' t) = set_col c v t"
  by (simp add: set_col_def)


lemma in_columns_iff: "c \<in> set (columns t) \<longleftrightarrow> map_of (cols t) c \<noteq> None"
  by (simp add: columns_def map_of_eq_None_iff)



section \<open>The body of the runner writes the dependent column only\<close>

lemma only_written_set_col: "only_written dv t ed \<Longrightarrow> only_written dv t (set_col dv v ed)"
  by (auto simp: only_written_def set_col_def)

lemma only_written_init: "only_written dv t (init_dependent fe hi dv t)"
  by (auto simp: only_written_def init_dependent_def set_col_def)

lemma only_written_add_to_col:
  "only_written dv t ed \<Longrightarrow> add_to_col dv vals ed = Inr ed' \<Longrightarrow> only_written dv t ed'"
  by (auto simp: add_to_col_def only_written_set_col split: sum.splits)

lemma only_written_fixed:
  "only_written dv t ed \<Longrightarrow> add_fixed_effects fe dv vars ed = Inr ed' \<Longrightarrow> only_written dv t ed'"
proof (induction vars arbitrary: ed)
  case Nil
  then show ?case by simp
next
  case (Cons var vars)
  then show ?case
    by (auto split: if_splits sum.splits dest: only_written_add_to_col)
qed

lemma only_written_part:
  "only_written dv t ed \<Longrightarrow> process_part re hi dv g part ed r = (Inr ed', r') \<Longrightarrow> only_written dv t ed'"
  by (auto simp: process_part_def Let_def split: option.splits sum.splits prod.splits if_splits
      dest: only_written_add_to_col)

lemma only_written_parts:
  "only_written dv t ed \<Longrightarrow> process_parts re hi dv g parts ed r = (Inr ed', r')
     \<Longrightarrow> only_written dv t ed'"
proof (induction parts arbitrary: ed r)
  case Nil
  then show ?case by simp
next
  case (Cons part parts)
  then show ?case
    by (auto split: sum.splits prod.splits dest: only_written_part)
qed

lemma only_written_terms:
  "only_written dv t ed \<Longrightarrow> process_terms re hi dv terms ed r = (Inr ed', r')
     \<Longrightarrow> only_written dv t ed'"
proof (induction terms arbitrary: ed r)
  case Nil
  then show ?case by simp
next
  case (Cons tm terms)
  then show ?case
    by (auto simp: Let_def split: sum.splits prod.splits if_splits dest: only_written_parts)
qed



lemma outcome_run:
  "outcome (run d lmm c noise seed s)
     = fst (simulate lmm (frames s ! c) noise
              (case seed of Some k \<Rightarrow> d k | None \<Rightarrow> generator s))"
  by (cases seed) (auto simp: outcome_def run_def Let_def split: sum.splits)

lemma frames_run:
  "i < length (frames s) \<Longrightarrow> frames (snd (run d lmm c noise seed s)) ! i = frames s ! i"
  by (cases seed) (auto simp: run_def Let_def nth_append split: sum.splits)


lemma generator_run_seeded: "generator (snd (run d lmm c noise (Some seed) s)) = generator s"
  by (auto simp: run_def Let_def split: sum.splits)

section \<open>A random-effect term whose group variable is missing\<close>

lemma columns_only_written: "only_written dv t ed \<Longrightarrow> set (columns ed) = insert dv (set (columns t))"
proof -
  assume "only_written dv t ed"
  then obtain vals where "cols ed = AList.update dv vals (cols t)"
    by (auto simp: only_written_def)
  then show ?thesis
    by (simp add: columns_def AList.dom_update)
qed

lemma process_terms_missing:
  assumes "only_written dv t ed" and "(p, g) \<in> set terms"
      and "strip g \<notin> insert dv (set (columns t))"
  shows "\<exists>e. fst (process_terms re hi dv terms ed r) = Inl e"
  using assms
proof (induction terms arbitrary: ed r)
  case Nil
  then show ?case by simp
next
  case (Cons tm terms)
  show ?case
  proof (cases "strip (snd tm) \<in> set (columns ed)")
    case False
    then show ?thesis by (simp add: Let_def)
  next
    case True
    with Cons.prems have ne: "tm \<noteq> (p, g)"
      by (auto simp: columns_only_written)
    show ?thesis
    proof (cases "process_parts re hi dv (strip (snd tm)) (split_on CHR ''+'' (fst tm)) ed r")
      case (Pair res r')
      show ?thesis
      proof (cases res)
        case (Inl e)
        with Pair True show ?thesis by (simp add: Let_def)
      next
        case (Inr ed')
        with Pair Cons.prems(1) have "only_written dv t ed'"
          by (auto dest: only_written_parts)
        from Cons.IH [OF this] Cons.prems ne
        have "\<exists>e. fst (process_terms re hi dv terms ed' r') = Inl e" by auto
        with Pair Inr True show ?thesis by (simp add: Let_def)
      qed
    qed
  qed
qed

lemma lmm_experiment_split:
  assumes "split_on CHR ''~'' f = [lhs, rhs]"
  shows "lmm_experiment f fe re =
           Inr \<lparr>formula = f,
                fixed_effects = (case fe of None \<Rightarrow> Map.empty | Some m \<Rightarrow> m),
                random_effects = (case re of None \<Rightarrow> Map.empty | Some m \<Rightarrow> m),
                fixed_variables = sort (remdups (map strip
                   (findall_fixed rhs @ random_term_names (findall_groups rhs))))\<rparr>"
  by (simp add: lmm_experiment_def extract_variable_names_def assms Let_def)

lemma simulate_missing_group:
  assumes s: "split_on CHR ''~'' (formula lmm) = [lhs, rhs]"
      and c: "(p, g) \<in> set (findall_terms (formula lmm))"
      and m: "strip g \<notin> set (columns t)" and d: "strip g \<noteq> strip lhs"
  shows "\<exists>e. fst (simulate lmm t noise r) = Inl e"
proof -
  let ?dv = "strip lhs" and ?hi = "has_intercept (fixed_effects lmm) rhs"
  let ?fixed = "add_fixed_effects (fixed_effects lmm) ?dv (fixed_variables lmm)
          (init_dependent (fixed_effects lmm) ?hi ?dv t)"
  show ?thesis
  proof (cases ?fixed)
    case (Inl e)
    then show ?thesis by (simp add: simulate_def s Let_def)
  next
    case (Inr ed1)
    then have "only_written ?dv t ed1"
      using only_written_fixed [OF only_written_init] by blast
    moreover from m d have "strip g \<notin> insert ?dv (set (columns t))" by simp
    ultimately obtain e where
      "fst (process_terms (random_effects lmm) ?hi ?dv (findall_terms (formula lmm)) ed1 r) = Inl e"
      using process_terms_missing [OF _ c, of ?dv t ed1 "random_effects lmm" ?hi r] by blast
    with Inr show ?thesis
      by (auto simp: simulate_def s Let_def split: prod.splits)
  qed
qed

lemma process_terms_append:
  "process_terms re hi dv (pre @ post) ed r =
     (case process_terms re hi dv pre ed r of
        (Inl e, r1) \<Rightarrow> (Inl e, r1)
      | (Inr ed1, r1) \<Rightarrow> process_terms re hi dv post ed1 r1)"
  by (induction pre arbitrary: ed r) (auto simp: Let_def split: prod.splits sum.splits)

section \<open>Draws, and names the coefficient loop does not visit\<close>

lemma draw_values_nonneg:
  "0 \<le> sd \<Longrightarrow> \<exists>vals. draw_values sd gs r = (Inr vals, \<lambda>n. r (length gs + n))"
proof (induction gs arbitrary: r)
  case Nil
  then show ?case by simp
next
  case (Cons g gs)
  from Cons.IH [OF Cons.prems, of "\<lambda>n. r (Suc n)"] obtain vals where
    "draw_values sd gs (\<lambda>n. r (Suc n)) = (Inr vals, \<lambda>n. r (Suc (length gs + n)))" by auto
  with Cons.prems show ?case by (simp add: normal_def)
qed

lemma findall_fixed_ident_all: "n \<in> set (findall_fixed s) \<Longrightarrow> is_ident n"
proof (induction s rule: findall_fixed.induct)
  case 1
  then show ?case by simp
next
  case (2 c cs)
  then show ?case
    by (auto simp: is_ident_def list_all_iff split: if_splits dest: set_takeWhileD)
qed

lemma ident_starts_lower: "is_ident n \<Longrightarrow> starts_lower n"
  by (auto simp: is_ident_def starts_lower_def split: list.splits)

lemma strip_ident: "is_ident n \<Longrightarrow> strip n = n"
  using ident_words strip_words by blast

lemma add_fixed_effects_other_key:
  "name \<notin> set vars \<Longrightarrow>
     add_fixed_effects (fe(name := v)) dv vars ed = add_fixed_effects (fe(name := v')) dv vars ed"
  by (induction vars arbitrary: ed) (auto split: sum.splits)

text \<open>Every label of the group column is a key of the dictionary of draws: the default of
  \<open>map_values\<close> is never used by the runner.\<close>

lemma set_unique_from: "set (unique_from seen xs) = set xs - set seen"
  by (induction xs arbitrary: seen) auto

lemma set_unique: "set (unique xs) = set xs"
  by (simp add: unique_def set_unique_from)

lemma draw_values_keys: "draw_values sd gs r = (Inr vals, r') \<Longrightarrow> map fst vals = gs"
  by (induction gs arbitrary: r vals r') (auto split: prod.splits sum.splits)

lemma every_label_is_a_key:
  assumes "draw_values sd (unique gs) r = (Inr vals, r')" and "g \<in> set gs"
  shows "map_of vals g \<noteq> None"
proof -
  from assms(1) have "map fst vals = unique gs" by (rule draw_values_keys)
  with assms(2) have "g \<in> fst ` set vals"
    by (metis set_unique set_map)
  then show ?thesis by (simp add: map_of_eq_None_iff)
qed

text \<open>The intercept test as the code has it, and the random intercept where the part is
  recognised (it is written \<open>1\<close> with no blank).\<close>

lemma has_intercept_iff: "has_intercept fe rhs \<longleftrightarrow> \<not> (search_zero rhs \<and> ''1'' \<notin> dom fe)"
  by (auto simp: has_intercept_def)

lemma random_intercept_skipped:
  assumes "re g = Some spec" and "map_of (cols ed) g = Some groups"
      and "0 \<le> (case spec ''Intercept'' of Some sd \<Rightarrow> sd | None \<Rightarrow> 0.5)"
  shows "process_part re False dv g ''1'' ed r = (Inr ed, \<lambda>n. r (length (unique groups) + n))"
proof -
  have i: "strip ''Intercept'' = ''Intercept''"
    by (simp add: strip_def is_space_def)
  from draw_values_nonneg [OF assms(3)] obtain vals where
    "draw_values (case spec ''Intercept'' of Some sd \<Rightarrow> sd | None \<Rightarrow> 0.5) (unique groups) r
       = (Inr vals, \<lambda>n. r (length (unique groups) + n))" by blast
  with assms show ?thesis
    by (simp add: process_part_def Let_def i)
qed

lemma random_intercept_added:
  assumes "re g = Some spec" and "map_of (cols ed) g = Some groups"
      and "0 \<le> (case spec ''Intercept'' of Some sd \<Rightarrow> sd | None \<Rightarrow> 0.5)"
  shows "\<exists>vals. map fst vals = unique groups \<and>
           process_part re True dv g ''1'' ed r
             = (add_to_col dv (map_values vals groups) ed, \<lambda>n. r (length (unique groups) + n))"
proof -
  have i: "strip ''Intercept'' = ''Intercept''"
    by (simp add: strip_def is_space_def)
  from draw_values_nonneg [OF assms(3)] obtain vals where
    d: "draw_values (case spec ''Intercept'' of Some sd \<Rightarrow> sd | None \<Rightarrow> 0.5) (unique groups) r
       = (Inr vals, \<lambda>n. r (length (unique groups) + n))" by blast
  then have "map fst vals = unique groups" by (rule draw_values_keys)
  moreover from d assms have "process_part re True dv g ''1'' ed r
             = (add_to_col dv (map_values vals groups) ed, \<lambda>n. r (length (unique groups) + n))"
    by (simp add: process_part_def Let_def i)
  ultimately show ?thesis by blast
qed

lemma extract_variable_names_sorted:
  "extract_variable_names f = Inr (d, fs, gs)
     \<Longrightarrow> sorted fs \<and> distinct fs \<and> sorted gs \<and> distinct gs"
  by (auto simp: extract_variable_names_def Let_def split: list.splits)

section \<open>A missing column and a column of zeros\<close>




































section \<open>When the runner returns\<close>

text \<open>
  The runner raises nothing when every random-effect term can be processed, the noise
  level is not negative and the columns it multiplies hold numbers. A name without a
  column is passed over by the tests \<^verbatim>\<open>in experiment_data.columns\<close> of lines 218 and 241.
\<close>

lemma numeric_on_set_col:
  "numeric_on names t \<Longrightarrow> numeric v \<noteq> None \<Longrightarrow> numeric_on names (set_col c v t)"
  by (simp add: numeric_on_def list_all_iff map_of_set_col)

lemma numeric_on_set_col_cons:
  "numeric_on names t \<Longrightarrow> numeric v \<noteq> None \<Longrightarrow> numeric_on (c # names) (set_col c v t)"
  by (simp add: numeric_on_def list_all_iff map_of_set_col)

lemma numeric_on_num_col:
  assumes a: "numeric_on names t" and n: "c \<in> set names" and c: "c \<in> set (columns t)"
  shows "\<exists>xs. num_col t c = Inr xs"
proof -
  from c obtain cs where m: "map_of (cols t) c = Some cs"
    by (auto simp: in_columns_iff)
  with a n have "numeric cs \<noteq> None" by (auto simp: numeric_on_def list_all_iff)
  with m show ?thesis by (auto simp: num_col_def)
qed

lemma numeric_on_add_to_col:
  "numeric_on names t \<Longrightarrow> c \<in> set names \<Longrightarrow> c \<in> set (columns t) \<Longrightarrow>
     \<exists>t'. add_to_col c vals t = Inr t' \<and> numeric_on names t' \<and> set (columns t') = set (columns t)"
  using numeric_on_num_col [of names t c]
  by (auto simp: add_to_col_def numeric_on_set_col columns_set_col comp_def)

lemma numeric_on_fixed:
  "numeric_on names ed \<Longrightarrow> dv \<in> set names \<Longrightarrow> dv \<in> set (columns ed) \<Longrightarrow>
     set vars \<subseteq> set names \<Longrightarrow>
     \<exists>ed'. add_fixed_effects fe dv vars ed = Inr ed' \<and> numeric_on names ed' \<and>
           set (columns ed') = set (columns ed)"
proof (induction vars arbitrary: ed)
  case Nil
  then show ?case by simp
next
  case (Cons var vars)
  from Cons.prems(4) have v: "var \<in> set names" and vs: "set vars \<subseteq> set names" by simp_all
  show ?case
  proof (cases "var \<in> set (columns ed)")
    case False
    with Cons.IH [OF Cons.prems(1-3) vs] show ?thesis by simp
  next
    case True
    from numeric_on_num_col [OF Cons.prems(1) v True] obtain xs where
      xs: "num_col ed var = Inr xs" ..
    from numeric_on_add_to_col [OF Cons.prems(1-3)] obtain ed1 where
      e: "add_to_col dv (map (\<lambda>x. (case fe var of Some b \<Rightarrow> b | None \<Rightarrow> 0) * x) xs) ed = Inr ed1"
      "numeric_on names ed1" "set (columns ed1) = set (columns ed)" by blast
    with Cons.prems have "dv \<in> set (columns ed1)" by simp
    from Cons.IH [OF e(2) Cons.prems(2) this vs] e True xs show ?thesis by auto
  qed
qed

lemma numeric_on_part:
  assumes n: "numeric_on names ed" and dn: "dv \<in> set names" and dv: "dv \<in> set (columns ed)"
      and g: "g \<in> set (columns ed)" and re: "re g = Some spec"
      and sd: "0 \<le> std_dev_of spec part0" and pn: "part_name part0 \<in> set names"
  shows "\<exists>ed' r'. process_part re hi dv g part0 ed r = (Inr ed', r') \<and> numeric_on names ed' \<and>
           set (columns ed') = set (columns ed)"
proof -
  let ?part = "strip (if part0 = ''1'' then ''Intercept'' else part0)"
  from g obtain groups where gr: "map_of (cols ed) g = Some groups"
    by (auto simp: in_columns_iff)
  from sd have "0 \<le> (case spec ?part of Some sd \<Rightarrow> sd | None \<Rightarrow> 0.5)"
    by (simp add: std_dev_of_def part_name_def)
  from draw_values_nonneg [OF this] obtain vals where
    d: "draw_values (case spec ?part of Some sd \<Rightarrow> sd | None \<Rightarrow> 0.5) (unique groups) r
       = (Inr vals, \<lambda>n. r (length (unique groups) + n))" by blast
  have pp: "process_part re hi dv g part0 ed r =
      (if ?part = ''Intercept''
       then (if hi then (add_to_col dv (map_values vals groups) ed, \<lambda>n. r (length (unique groups) + n))
             else (Inr ed, \<lambda>n. r (length (unique groups) + n)))
       else if ?part \<in> set (columns ed)
       then (case num_col ed ?part of
               Inl e \<Rightarrow> (Inl e, \<lambda>n. r (length (unique groups) + n))
             | Inr xs \<Rightarrow> (add_to_col dv (map2 (*) (map_values vals groups) xs) ed,
                          \<lambda>n. r (length (unique groups) + n)))
       else (Inr ed, \<lambda>n. r (length (unique groups) + n)))"
    unfolding process_part_def Let_def re gr option.case d prod.case sum.case by (rule refl)
  show ?thesis
  proof (cases "?part = ''Intercept''")
    case True
    with numeric_on_add_to_col [OF n dn dv, of "map_values vals groups"] n show ?thesis
      unfolding pp by auto
  next
    case False
    show ?thesis
    proof (cases "?part \<in> set (columns ed)")
      case c: True
      from pn have "?part \<in> set names" by (simp add: part_name_def)
      from numeric_on_num_col [OF n this c] obtain xs where xs: "num_col ed ?part = Inr xs" ..
      from numeric_on_add_to_col [OF n dn dv, of "map2 (*) (map_values vals groups) xs"]
      show ?thesis unfolding pp using False c xs by auto
    next
      case c: False
      with False n show ?thesis unfolding pp by auto
    qed
  qed
qed

lemma numeric_on_parts:
  assumes "re g = Some spec" and "dv \<in> set names"
  shows "numeric_on names ed \<Longrightarrow> dv \<in> set (columns ed) \<Longrightarrow> g \<in> set (columns ed) \<Longrightarrow>
     list_all (\<lambda>part. 0 \<le> std_dev_of spec part) parts \<Longrightarrow>
     set (map part_name parts) \<subseteq> set names \<Longrightarrow>
     \<exists>ed' r'. process_parts re hi dv g parts ed r = (Inr ed', r') \<and> numeric_on names ed' \<and>
           set (columns ed') = set (columns ed)"
proof (induction parts arbitrary: ed r)
  case Nil
  then show ?case by simp
next
  case (Cons part parts)
  from Cons.prems(4) have sd: "0 \<le> std_dev_of spec part"
    and rest: "list_all (\<lambda>part. 0 \<le> std_dev_of spec part) parts" by simp_all
  from Cons.prems(5) have pn: "part_name part \<in> set names"
    and pns: "set (map part_name parts) \<subseteq> set names" by simp_all
  from numeric_on_part [of names ed dv g re spec part hi r] Cons.prems(1-3) assms sd pn
  obtain ed1 r1 where
    p: "process_part re hi dv g part ed r = (Inr ed1, r1)" "numeric_on names ed1"
       "set (columns ed1) = set (columns ed)" by blast
  with Cons.prems have "dv \<in> set (columns ed1)" "g \<in> set (columns ed1)" by simp_all
  from Cons.IH [OF p(2) this rest pns, of r1] p show ?case by auto
qed

lemma numeric_on_terms:
  assumes "dv \<in> set names"
  shows "numeric_on names ed \<Longrightarrow> dv \<in> set (columns ed) \<Longrightarrow>
     list_all (term_ok re (columns ed)) terms \<Longrightarrow>
     set (concat (map (\<lambda>tm. map part_name (split_on CHR ''+'' (fst tm))) terms)) \<subseteq> set names \<Longrightarrow>
     \<exists>ed' r'. process_terms re hi dv terms ed r = (Inr ed', r') \<and> numeric_on names ed' \<and>
           set (columns ed') = set (columns ed)"
proof (induction terms arbitrary: ed r)
  case Nil
  then show ?case by simp
next
  case (Cons tm terms)
  from Cons.prems(3) have ok: "term_ok re (columns ed) tm"
    and rest: "list_all (term_ok re (columns ed)) terms" by simp_all
  from Cons.prems(4) have pn: "set (map part_name (split_on CHR ''+'' (fst tm))) \<subseteq> set names"
    and pns: "set (concat (map (\<lambda>tm. map part_name (split_on CHR ''+'' (fst tm))) terms)) \<subseteq> set names"
    by simp_all
  from ok obtain spec where
    g: "strip (snd tm) \<in> set (columns ed)" and re: "re (strip (snd tm)) = Some spec"
    and sd: "list_all (\<lambda>part. 0 \<le> std_dev_of spec part) (split_on CHR ''+'' (fst tm))"
    by (cases "re (strip (snd tm))") (simp_all add: term_ok_def)
  from numeric_on_parts [of re "strip (snd tm)" spec dv names ed "split_on CHR ''+'' (fst tm)" hi r]
    re assms Cons.prems(1,2) g sd pn
  obtain ed1 r1 where
    p: "process_parts re hi dv (strip (snd tm)) (split_on CHR ''+'' (fst tm)) ed r = (Inr ed1, r1)"
       "numeric_on names ed1" "set (columns ed1) = set (columns ed)" by blast
  from rest p(3) have rest1: "list_all (term_ok re (columns ed1)) terms"
    by (simp add: term_ok_def list_all_iff)
  from Cons.prems p have "dv \<in> set (columns ed1)" by simp
  from Cons.IH [OF p(2) this rest1 pns, of r1] p g show ?case by (auto simp: Let_def)
qed




section \<open>Evaluation on concrete inputs\<close>

text \<open>The definitions that the simplifier unfolds to run the model on a concrete formula and
  table.\<close>

lemmas parse_defs = is_space_def is_lower_def is_word_def closes_first_def no_bar_nl_def
  no_close_nl_def match_term_def match_group_def strip_def random_term_names_def
  extract_variable_names_def search_zero_def

lemmas run_defs = experiment_run_def lmm_experiment_def simulate_def has_intercept_def
  init_dependent_def set_col_def columns_def num_col_def add_to_col_def process_part_def
  add_noise_def normal_def normal_n_def unique_def map_values_def Let_def upt_rec
  eval_nat_numeral

section \<open>The claims\<close>

text \<open>
  C1. The intercept test of line 209 looks for the key \<open>1\<close> in the coefficient dictionary,
  not for the key \<open>Intercept\<close> that line 214 reads and the documentation names. With
  \<^verbatim>\<open>rt ~ 0 + x1\<close> and \<open>{Intercept: 1, x1: 2}\<close> the intercept is therefore not active, and
  on \<open>x1 = [0, 1]\<close> the result is \<open>rt = [0, 2]\<close>, not \<open>[1, 3]\<close>.
\<close>

theorem C1_intercept_entry_not_consulted:
  "\<not> has_intercept [''Intercept'' \<mapsto> 1, ''x1'' \<mapsto> 2] '' 0 + x1'' \<and>
   fst (experiment_run ''rt ~ 0 + x1'' (Some [''Intercept'' \<mapsto> 1, ''x1'' \<mapsto> 2]) None
          \<lparr>nrows = 2, cols = [(''x1'', [Num 0, Num 1])]\<rparr> 0 (\<lambda>n. 1))
     = Inr \<lparr>nrows = 2, cols = [(''x1'', [Num 0, Num 1]), (''rt'', [Num 0, Num 2])]\<rparr>"
  by (simp add: parse_defs run_defs)

text \<open>
  C2. The documented scenario \<^verbatim>\<open>rt ~ 1 + x1\<close> with \<open>{Intercept: 1, x1: 2}\<close> on
  \<open>x1 = [0, 0.25, 0.5, 0.75, 1]\<close> gives \<open>rt = [1, 1.5, 2, 2.5, 3]\<close>, but the statement for
  every formula \<open>y ~ 1 + x\<close> fails: line 337, commented \<^emph>\<open>Matches variables outside
  parentheses\<close>, searches for \<^verbatim>\<open>[a-z]\w*\<close>, whose match can begin at a lower-case letter
  only. A predictor \<open>X1\<close> is not found, no fixed effect is added, and \<^verbatim>\<open>y ~ 1 + X1\<close>
  with \<open>{Intercept: 1, X1: 2}\<close> on \<open>X1 = [0, 1]\<close> gives \<open>y = [1, 1]\<close>, not \<open>[1, 3]\<close>. Of a
  predictor \<open>Age\<close> the pattern finds the tail \<open>ge\<close>, which names no column. The path of
  the random-effect term lists (lines 341 and 342) has no such restriction and returns
  the same \<open>X1\<close> as a fixed-effect name.
\<close>

theorem C2_upper_case_predictor_ignored:
  "extract_variable_names ''y ~ 1 + X1'' = Inr (''y'', [], []) \<and>
   fst (experiment_run ''y ~ 1 + X1'' (Some [''Intercept'' \<mapsto> 1, ''X1'' \<mapsto> 2]) None
          \<lparr>nrows = 2, cols = [(''X1'', [Num 0, Num 1])]\<rparr> 0 (\<lambda>n. 1))
     = Inr \<lparr>nrows = 2, cols = [(''X1'', [Num 0, Num 1]), (''y'', [Num 1, Num 1])]\<rparr> \<and>
   extract_variable_names ''y ~ 1 + Age'' = Inr (''y'', [''ge''], []) \<and>
   fst (experiment_run ''y ~ 1 + Age'' (Some [''Intercept'' \<mapsto> 1, ''Age'' \<mapsto> 2]) None
          \<lparr>nrows = 2, cols = [(''Age'', [Num 0, Num 1])]\<rparr> 0 (\<lambda>n. 1))
     = Inr \<lparr>nrows = 2, cols = [(''Age'', [Num 0, Num 1]), (''y'', [Num 1, Num 1])]\<rparr> \<and>
   extract_variable_names ''y ~ 1 + (X1|g)'' = Inr (''y'', [''X1''], [''g'']) \<and>
   extract_variable_names ''rt ~ 1 + x1'' = Inr (''rt'', [''x1''], []) \<and>
   fst (experiment_run ''rt ~ 1 + x1'' (Some [''Intercept'' \<mapsto> 1, ''x1'' \<mapsto> 2]) None
          \<lparr>nrows = 5, cols = [(''x1'', [Num 0, Num 0.25, Num 0.5, Num 0.75, Num 1])]\<rparr> 0 (\<lambda>n. 1))
     = Inr \<lparr>nrows = 5, cols = [(''x1'', [Num 0, Num 0.25, Num 0.5, Num 0.75, Num 1]),
                                 (''rt'', [Num 1, Num 1.5, Num 2, Num 2.5, Num 3])]\<rparr>"
  by (simp add: parse_defs run_defs)

text \<open>
  C3, as stated: a formula with a random-effect term whose group variable is not a column
  of the conditions table raises. It does not when the group variable is the dependent
  variable: the test of line 228 reads the columns of the working copy, which already
  holds the dependent column. For \<^verbatim>\<open>g ~ (1|g)\<close> on a table without a column \<open>g\<close> the call
  returns a table.
\<close>

theorem C3_counterexample:
  "''g'' \<notin> set (columns \<lparr>nrows = 2, cols = []\<rparr>) \<and>
   findall_terms ''g ~ (1|g)'' = [(''1'', ''g'')] \<and>
   fst (experiment_run ''g ~ (1|g)'' None (Some [''g'' \<mapsto> [''Intercept'' \<mapsto> 1]])
          \<lparr>nrows = 2, cols = []\<rparr> 0 (\<lambda>n. 1))
     = Inr \<lparr>nrows = 2, cols = [(''g'', [Num 1, Num 1])]\<rparr>"
  by (simp add: parse_defs run_defs)

text \<open>
  C3, amended. If the group variable of a random-effect term of the formula is neither a
  column of the conditions table nor the dependent variable, the call returns no table:
  it ends in an exception. The exception is \<open>MissingGroupError\<close> for that variable
  whenever the steps before the term raise nothing, that is, the fixed-effect loop
  (lines 217 to 219) completes and the random-effect terms \<open>pre\<close> that stand before it in
  the formula are processed without an exception; the generator is then as those terms
  left it. They do raise nothing when the columns that exist under the name of a
  fixed-effect variable or of a part of a term hold numbers and each term of \<open>pre\<close> has a
  group variable that is a column or the dependent variable, with an entry in the
  specification and no negative standard deviation. Here \<open>lmm\<close> is the experiment that
  \<^verbatim>\<open>lmm_experiment\<close> builds.
\<close>

theorem C3_missing_group_raises:
  assumes build: "lmm_experiment f fe re = Inr lmm"
      and split: "split_on CHR ''~'' f = [lhs, rhs]"
      and terms: "findall_terms f = pre @ (p, g) # rest"
      and missing: "strip g \<notin> set (columns t)"
      and notdep: "strip g \<noteq> strip lhs"
  shows "(\<exists>e. fst (experiment_run f fe re t noise r) = Inl e) \<and>
         (\<forall>ed1 ed2 r2.
            add_fixed_effects (fixed_effects lmm) (strip lhs) (fixed_variables lmm)
              (init_dependent (fixed_effects lmm) (has_intercept (fixed_effects lmm) rhs)
                 (strip lhs) t) = Inr ed1 \<longrightarrow>
            process_terms (random_effects lmm) (has_intercept (fixed_effects lmm) rhs)
              (strip lhs) pre ed1 r = (Inr ed2, r2) \<longrightarrow>
            experiment_run f fe re t noise r = (Inl (MissingGroupError (strip g)), r2)) \<and>
         (numeric_on (operands lmm) t \<and>
          list_all (term_ok (random_effects lmm) (strip lhs # columns t)) pre
            \<longrightarrow> fst (experiment_run f fe re t noise r) = Inl (MissingGroupError (strip g)))"
proof -
  let ?dv = "strip lhs" and ?hi = "has_intercept (fixed_effects lmm) rhs"
  let ?ed0 = "init_dependent (fixed_effects lmm) ?hi ?dv t"
  let ?names = "?dv # operands lmm"
  from build split have f: "formula lmm = f"
    by (auto simp: lmm_experiment_split)
  have run: "experiment_run f fe re t noise r = simulate lmm t noise r"
    by (simp add: experiment_run_def build)
  have "(p, g) \<in> set (findall_terms (formula lmm))"
    by (simp add: f terms)
  from simulate_missing_group [OF _ this missing notdep, of rhs noise r] split f
  have 1: "\<exists>e. fst (simulate lmm t noise r) = Inl e" by simp
  have 2: "simulate lmm t noise r = (Inl (MissingGroupError (strip g)), r2)"
    if fx: "add_fixed_effects (fixed_effects lmm) ?dv (fixed_variables lmm) ?ed0 = Inr ed1"
      and pr: "process_terms (random_effects lmm) ?hi ?dv pre ed1 r = (Inr ed2, r2)"
    for ed1 ed2 r2
  proof -
    from fx have "only_written ?dv t ed1"
      using only_written_fixed [OF only_written_init] by blast
    then have "only_written ?dv t ed2"
      using pr by (rule only_written_terms)
    with missing notdep have "strip g \<notin> set (columns ed2)"
      by (simp add: columns_only_written)
    then show ?thesis
      by (simp add: simulate_def f split Let_def fx terms process_terms_append pr)
  qed
  have 3: "fst (simulate lmm t noise r) = Inl (MissingGroupError (strip g))"
    if n: "numeric_on (operands lmm) t"
      and ok: "list_all (term_ok (random_effects lmm) (strip lhs # columns t)) pre"
  proof -
    have c0: "set (columns ?ed0) = insert ?dv (set (columns t))"
      by (simp add: columns_only_written [OF only_written_init])
    then have dv0: "?dv \<in> set (columns ?ed0)" by simp
    have dn: "?dv \<in> set ?names" by simp
    have n0: "numeric_on ?names ?ed0"
      unfolding init_dependent_def
      by (rule numeric_on_set_col_cons [OF n]) (simp add: numeric_replicate)
    have fv: "set (fixed_variables lmm) \<subseteq> set ?names"
      by (auto simp: operands_def)
    have pv: "set (concat (map (\<lambda>tm. map part_name (split_on CHR ''+'' (fst tm))) pre))
                \<subseteq> set ?names"
      by (auto simp: operands_def f terms)
    from numeric_on_fixed [OF n0 dn dv0 fv] obtain ed1 where
      fx: "add_fixed_effects (fixed_effects lmm) ?dv (fixed_variables lmm) ?ed0 = Inr ed1"
         "numeric_on ?names ed1" "set (columns ed1) = set (columns ?ed0)" by blast
    from ok fx(3) c0 have ok1: "list_all (term_ok (random_effects lmm) (columns ed1)) pre"
      by (simp add: term_ok_def list_all_iff)
    from fx(3) dv0 have dv1: "?dv \<in> set (columns ed1)" by simp
    from numeric_on_terms [OF dn fx(2) dv1 ok1 pv, of ?hi r] obtain ed2 r2 where
      "process_terms (random_effects lmm) ?hi ?dv pre ed1 r = (Inr ed2, r2)" by blast
    from 2 [OF fx(1) this] show ?thesis by simp
  qed
  from 1 2 3 show ?thesis
    unfolding run by blast
qed

theorem C3_missing_group_raises_witness:
  "lmm_experiment ''rt ~ x1 + (1|subject) + (1|item)'' (Some [''Intercept'' \<mapsto> 1, ''x1'' \<mapsto> 2])
       (Some [''subject'' \<mapsto> [''Intercept'' \<mapsto> 2]])
     = Inr \<lparr>formula = ''rt ~ x1 + (1|subject) + (1|item)'',
             fixed_effects = [''Intercept'' \<mapsto> 1, ''x1'' \<mapsto> 2],
             random_effects = [''subject'' \<mapsto> [''Intercept'' \<mapsto> 2]],
             fixed_variables = [''1'', ''x1'']\<rparr> \<and>
   split_on CHR ''~'' ''rt ~ x1 + (1|subject) + (1|item)''
     = [''rt '', '' x1 + (1|subject) + (1|item)''] \<and>
   findall_terms ''rt ~ x1 + (1|subject) + (1|item)'' = [(''1'', ''subject''), (''1'', ''item'')] \<and>
   strip ''item'' \<notin> set (columns \<lparr>nrows = 2, cols = [(''x1'', [Num 0, Num 1]),
                                                       (''subject'', [Lbl ''a'', Lbl ''b''])]\<rparr>) \<and>
   add_fixed_effects [''Intercept'' \<mapsto> 1, ''x1'' \<mapsto> 2] ''rt'' [''1'', ''x1'']
       (init_dependent [''Intercept'' \<mapsto> 1, ''x1'' \<mapsto> 2] True ''rt''
          \<lparr>nrows = 2, cols = [(''x1'', [Num 0, Num 1]), (''subject'', [Lbl ''a'', Lbl ''b''])]\<rparr>)
     = Inr \<lparr>nrows = 2, cols = [(''x1'', [Num 0, Num 1]), (''subject'', [Lbl ''a'', Lbl ''b'']),
                                (''rt'', [Num 1, Num 3])]\<rparr> \<and>
   process_terms [''subject'' \<mapsto> [''Intercept'' \<mapsto> 2]] True ''rt'' [(''1'', ''subject'')]
       \<lparr>nrows = 2, cols = [(''x1'', [Num 0, Num 1]), (''subject'', [Lbl ''a'', Lbl ''b'']),
                           (''rt'', [Num 1, Num 3])]\<rparr> (\<lambda>n. 1)
     = (Inr \<lparr>nrows = 2, cols = [(''x1'', [Num 0, Num 1]), (''subject'', [Lbl ''a'', Lbl ''b'']),
                                 (''rt'', [Num 3, Num 5])]\<rparr>, \<lambda>n. 1) \<and>
   numeric_on (operands \<lparr>formula = ''rt ~ x1 + (1|subject) + (1|item)'',
             fixed_effects = [''Intercept'' \<mapsto> 1, ''x1'' \<mapsto> 2],
             random_effects = [''subject'' \<mapsto> [''Intercept'' \<mapsto> 2]],
             fixed_variables = [''1'', ''x1'']\<rparr>)
     \<lparr>nrows = 2, cols = [(''x1'', [Num 0, Num 1]), (''subject'', [Lbl ''a'', Lbl ''b''])]\<rparr> \<and>
   term_ok [''subject'' \<mapsto> [''Intercept'' \<mapsto> 2]] [''rt'', ''x1'', ''subject''] (''1'', ''subject'') \<and>
   experiment_run ''rt ~ x1 + (1|subject) + (1|item)'' (Some [''Intercept'' \<mapsto> 1, ''x1'' \<mapsto> 2])
       (Some [''subject'' \<mapsto> [''Intercept'' \<mapsto> 2]])
       \<lparr>nrows = 2, cols = [(''x1'', [Num 0, Num 1]), (''subject'', [Lbl ''a'', Lbl ''b''])]\<rparr>
       0 (\<lambda>n. 1)
     = (Inl (MissingGroupError ''item''), \<lambda>n. 1)"
  using C3_missing_group_raises [of "''rt ~ x1 + (1|subject) + (1|item)''"
      "Some [''Intercept'' \<mapsto> 1, ''x1'' \<mapsto> 2]" "Some [''subject'' \<mapsto> [''Intercept'' \<mapsto> 2]]"
      "\<lparr>formula = ''rt ~ x1 + (1|subject) + (1|item)'',
             fixed_effects = [''Intercept'' \<mapsto> 1, ''x1'' \<mapsto> 2],
             random_effects = [''subject'' \<mapsto> [''Intercept'' \<mapsto> 2]],
             fixed_variables = [''1'', ''x1'']\<rparr>"
      "''rt ''" "'' x1 + (1|subject) + (1|item)''" "[(''1'', ''subject'')]" "''1''" "''item''" "[]"
      "\<lparr>nrows = 2, cols = [(''x1'', [Num 0, Num 1]), (''subject'', [Lbl ''a'', Lbl ''b''])]\<rparr>"
      0 "\<lambda>n. 1"]
  by (simp add: parse_defs run_defs numeric_on_def operands_def part_name_def term_ok_def
        std_dev_of_def)

text \<open>
  C4. Line 235 subscripts the random-effects specification with the group before it asks
  for the term with a default. With no entry for the group (here no specification at
  all, which \<^verbatim>\<open>lmm_experiment\<close> turns into the empty dictionary) the call raises
  \<^verbatim>\<open>KeyError\<close>; with an entry for the group that lacks the term, the default 0.5 is
  used: the draw is \<open>0.5 * 1\<close> for a generator that yields 1.
\<close>

theorem C4_missing_group_key_raises:
  "fst (experiment_run ''rt ~ 1 + (1|subject)'' (Some [''Intercept'' \<mapsto> 1]) None
          \<lparr>nrows = 2, cols = [(''subject'', [Num 1, Num 2])]\<rparr> 0 (\<lambda>n. 1))
     = Inl (KeyError ''subject'') \<and>
   fst (experiment_run ''rt ~ 1 + (1|subject)'' (Some [''Intercept'' \<mapsto> 1])
          (Some [''subject'' \<mapsto> Map.empty])
          \<lparr>nrows = 2, cols = [(''subject'', [Num 1, Num 2])]\<rparr> 0 (\<lambda>n. 1))
     = Inr \<lparr>nrows = 2, cols = [(''subject'', [Num 1, Num 2]), (''rt'', [Num 1.5, Num 1.5])]\<rparr>"
  by (simp add: parse_defs run_defs)

text \<open>
  C5. Lines 233 and 234 compare the part with \<open>1\<close> before they strip it. In
  \<^verbatim>\<open>(1 + x1|subject)\<close> the part is \<open>1\<close> followed by a blank, so it is not renamed to
  \<open>Intercept\<close> and is treated as a slope on a column \<open>1\<close>, which does not exist: no random
  intercept is added although the fixed intercept is active (\<open>rt = [1, 1]\<close>). The
  spelling \<^verbatim>\<open>(1+x1|subject)\<close> on the same input adds it (\<open>rt = [3, 3]\<close>: the intercept 1
  plus the draw \<open>2 * 1\<close>).
\<close>

theorem C5_spaced_intercept_marker_is_a_slope:
  "fst (experiment_run ''rt ~ 1 + (1 + x1|subject)'' (Some [''Intercept'' \<mapsto> 1])
          (Some [''subject'' \<mapsto> [''Intercept'' \<mapsto> 2, ''x1'' \<mapsto> 3]])
          \<lparr>nrows = 2, cols = [(''x1'', [Num 0, Num 0]), (''subject'', [Num 1, Num 2])]\<rparr> 0 (\<lambda>n. 1))
     = Inr \<lparr>nrows = 2, cols = [(''x1'', [Num 0, Num 0]), (''subject'', [Num 1, Num 2]),
                                 (''rt'', [Num 1, Num 1])]\<rparr> \<and>
   fst (experiment_run ''rt ~ 1 + (1+x1|subject)'' (Some [''Intercept'' \<mapsto> 1])
          (Some [''subject'' \<mapsto> [''Intercept'' \<mapsto> 2, ''x1'' \<mapsto> 3]])
          \<lparr>nrows = 2, cols = [(''x1'', [Num 0, Num 0]), (''subject'', [Num 1, Num 2])]\<rparr> 0 (\<lambda>n. 1))
     = Inr \<lparr>nrows = 2, cols = [(''x1'', [Num 0, Num 0]), (''subject'', [Num 1, Num 2]),
                                 (''rt'', [Num 3, Num 3])]\<rparr>"
  by (simp add: parse_defs run_defs)

text \<open>
  C6. Line 342 removes the intercept marker only where it is written \<open>1 + \<close> with exactly
  these blanks, and removes these four characters wherever they occur. The marker of
  \<^verbatim>\<open>(1|subject)\<close> and of \<^verbatim>\<open>(1+x1|subject)\<close> is returned as the fixed-effect name \<open>1\<close>, and
  the term list \<^verbatim>\<open>x1 + x2\<close> becomes the single name \<open>xx2\<close>.
\<close>

theorem C6_intercept_marker_kept_as_name:
  "extract_variable_names ''rt ~ (1|subject)'' = Inr (''rt'', [''1''], [''subject'']) \<and>
   extract_variable_names ''rt ~ 1 + (1|subject) + x1'' = Inr (''rt'', [''1'', ''x1''], [''subject'']) \<and>
   extract_variable_names ''rt ~ (1+x1|subject)'' = Inr (''rt'', [''1'', ''x1''], [''subject'']) \<and>
   extract_variable_names ''rt ~ (x1 + x2|subject)'' = Inr (''rt'', [''xx2''], [''subject''])"
  by (simp add: parse_defs)

text \<open>
  C7. A call with an explicit \<open>random_state\<close> draws from a generator made from that seed
  alone. Its output is therefore the same in any two states of the program whose
  conditions tables have the same contents, whatever the shared generator holds; in
  particular two successive calls on the same table with the same seed return equal
  tables (or the same exception), random-effect draws and noise included, and such a
  call leaves the shared generator as it was.
\<close>

theorem C7_same_seed_same_output:
  "(\<forall>s' c'. frames s' ! c' = frames s ! c \<longrightarrow>
       outcome (run d lmm c' noise (Some seed) s') = outcome (run d lmm c noise (Some seed) s)) \<and>
   (c < length (frames s) \<longrightarrow>
       outcome (run d lmm c noise (Some seed) (snd (run d lmm c noise (Some seed) s)))
         = outcome (run d lmm c noise (Some seed) s)) \<and>
   generator (snd (run d lmm c noise (Some seed) s)) = generator s"
  by (simp add: outcome_run frames_run generator_run_seeded)

theorem C7_same_seed_same_output_witness:
  "outcome (run (\<lambda>seed n. real_of_int seed)
      \<lparr>formula = ''rt ~ 1 + (1|subject)'', fixed_effects = [''Intercept'' \<mapsto> 1],
        random_effects = [''subject'' \<mapsto> [''Intercept'' \<mapsto> 2]], fixed_variables = [''1'']\<rparr>
      0 0 (Some 3)
      (snd (run (\<lambda>seed n. real_of_int seed)
         \<lparr>formula = ''rt ~ 1 + (1|subject)'', fixed_effects = [''Intercept'' \<mapsto> 1],
        random_effects = [''subject'' \<mapsto> [''Intercept'' \<mapsto> 2]], fixed_variables = [''1'']\<rparr>
         0 0 (Some 3)
         \<lparr>frames = [\<lparr>nrows = 2, cols = [(''subject'', [Num 1, Num 2])]\<rparr>], generator = (\<lambda>n. 1)\<rparr>)))
   = outcome (run (\<lambda>seed n. real_of_int seed)
      \<lparr>formula = ''rt ~ 1 + (1|subject)'', fixed_effects = [''Intercept'' \<mapsto> 1],
        random_effects = [''subject'' \<mapsto> [''Intercept'' \<mapsto> 2]], fixed_variables = [''1'']\<rparr>
      0 0 (Some 3)
      \<lparr>frames = [\<lparr>nrows = 2, cols = [(''subject'', [Num 1, Num 2])]\<rparr>], generator = (\<lambda>n. 1)\<rparr>) \<and>
   outcome (run (\<lambda>seed n. real_of_int seed)
      \<lparr>formula = ''rt ~ 1 + (1|subject)'', fixed_effects = [''Intercept'' \<mapsto> 1],
        random_effects = [''subject'' \<mapsto> [''Intercept'' \<mapsto> 2]], fixed_variables = [''1'']\<rparr>
      0 0 (Some 3)
      \<lparr>frames = [\<lparr>nrows = 2, cols = [(''subject'', [Num 1, Num 2])]\<rparr>], generator = (\<lambda>n. 1)\<rparr>)
   = Inr \<lparr>nrows = 2, cols = [(''subject'', [Num 1, Num 2]), (''rt'', [Num 7, Num 7])]\<rparr>"
  using C7_same_seed_same_output [of
      "\<lparr>frames = [\<lparr>nrows = 2, cols = [(''subject'', [Num 1, Num 2])]\<rparr>], generator = (\<lambda>n. 1)\<rparr>" 0
      "(\<lambda>seed n. real_of_int seed)"
      "\<lparr>formula = ''rt ~ 1 + (1|subject)'', fixed_effects = [''Intercept'' \<mapsto> 1],
        random_effects = [''subject'' \<mapsto> [''Intercept'' \<mapsto> 2]], fixed_variables = [''1'']\<rparr>"
      0 3]
  by (simp add: outcome_def run_def parse_defs run_defs)

text \<open>
  Without a \<open>random_state\<close> the calls draw from the shared generator one after the other,
  and two successive calls on the same table differ: the model does tell the two cases
  apart.
\<close>

lemma unseeded_calls_share_the_generator:
  "outcome (run (\<lambda>seed n. real_of_int seed)
      \<lparr>formula = ''rt ~ 1 + (1|subject)'', fixed_effects = [''Intercept'' \<mapsto> 1],
        random_effects = [''subject'' \<mapsto> [''Intercept'' \<mapsto> 2]], fixed_variables = [''1'']\<rparr>
      0 0 None
      \<lparr>frames = [\<lparr>nrows = 1, cols = [(''subject'', [Num 1])]\<rparr>], generator = (\<lambda>n. real n)\<rparr>)
   = Inr \<lparr>nrows = 1, cols = [(''subject'', [Num 1]), (''rt'', [Num 1])]\<rparr> \<and>
   outcome (run (\<lambda>seed n. real_of_int seed)
      \<lparr>formula = ''rt ~ 1 + (1|subject)'', fixed_effects = [''Intercept'' \<mapsto> 1],
        random_effects = [''subject'' \<mapsto> [''Intercept'' \<mapsto> 2]], fixed_variables = [''1'']\<rparr>
      0 0 None
      (snd (run (\<lambda>seed n. real_of_int seed)
         \<lparr>formula = ''rt ~ 1 + (1|subject)'', fixed_effects = [''Intercept'' \<mapsto> 1],
           random_effects = [''subject'' \<mapsto> [''Intercept'' \<mapsto> 2]], fixed_variables = [''1'']\<rparr>
         0 0 None
         \<lparr>frames = [\<lparr>nrows = 1, cols = [(''subject'', [Num 1])]\<rparr>], generator = (\<lambda>n. real n)\<rparr>)))
   = Inr \<lparr>nrows = 1, cols = [(''subject'', [Num 1]), (''rt'', [Num 5])]\<rparr>"
  by (simp add: outcome_def run_def parse_defs run_defs)






text \<open>
  C10, as stated: a bare term that does not begin with a lower-case letter is left out of
  the fixed-effect names and its coefficient is ignored. It is not when the same name
  stands in the term list of a random-effect term, from where lines 341 and 342 add it:
  for \<^verbatim>\<open>y ~ X1 + (X1|g)\<close> the parser returns the fixed-effect name \<open>X1\<close> and the
  coefficient 2 is applied (\<open>y = [2, 6]\<close> on \<open>X1 = [1, 3]\<close>).
\<close>

theorem C10_counterexample:
  "\<not> starts_lower ''X1'' \<and>
   extract_variable_names ''y ~ X1 + (X1|g)'' = Inr (''y'', [''X1''], [''g'']) \<and>
   fst (experiment_run ''y ~ X1 + (X1|g)'' (Some [''X1'' \<mapsto> 2]) (Some [''g'' \<mapsto> [''X1'' \<mapsto> 0]])
          \<lparr>nrows = 2, cols = [(''X1'', [Num 1, Num 3]), (''g'', [Num 1, Num 1])]\<rparr> 0 (\<lambda>n. 1))
     = Inr \<lparr>nrows = 2, cols = [(''X1'', [Num 1, Num 3]), (''g'', [Num 1, Num 1]),
                                 (''y'', [Num 2, Num 6])]\<rparr>"
  by (simp add: parse_defs run_defs starts_lower_def)

text \<open>
  C10, amended. A name that does not begin with a lower-case letter, is not among the
  names the parser takes from the term lists of the random-effect terms, and is not one
  of the keys \<open>Intercept\<close> and \<open>1\<close> that the intercept uses: the parser does not return it as
  a fixed-effect name, and the result of the simulation, generator included, does not
  depend on the coefficient given for it, whatever the table holds.
\<close>

theorem C10_name_not_starting_lower_case:
  assumes "split_on CHR ''~'' f = [lhs, rhs]"
      and "\<not> starts_lower name"
      and "name \<notin> set (map strip (random_term_names (findall_groups rhs)))"
      and "name \<noteq> ''Intercept''" and "name \<noteq> ''1''"
  shows "(\<exists>fs gs. extract_variable_names f = Inr (strip lhs, fs, gs) \<and> name \<notin> set fs) \<and>
         experiment_run f (Some (fe(name := v))) re t noise r
           = experiment_run f (Some (fe(name := v'))) re t noise r"
proof -
  let ?fs = "sort (remdups (map strip (findall_fixed rhs @ random_term_names (findall_groups rhs))))"
  have "name \<notin> set (map strip (findall_fixed rhs))"
  proof
    assume "name \<in> set (map strip (findall_fixed rhs))"
    then obtain n where "n \<in> set (findall_fixed rhs)" "name = strip n" by auto
    then have "is_ident name" using findall_fixed_ident_all strip_ident by metis
    with assms(2) show False by (simp add: ident_starts_lower)
  qed
  with assms(3) have nin: "name \<notin> set ?fs" by simp
  have ex: "extract_variable_names f = Inr (strip lhs, ?fs,
      sort (remdups (map (\<lambda>reffect. strip (snd reffect)) (findall_groups rhs))))"
    by (simp add: extract_variable_names_def assms(1) Let_def)
  have hi: "has_intercept (fe(name := v)) rhs = has_intercept (fe(name := v')) rhs"
    using assms(5) by (simp add: has_intercept_def dom_def)
  have init: "init_dependent (fe(name := v)) h (strip lhs) t = init_dependent (fe(name := v')) h (strip lhs) t" for h
    using assms(4) by (simp add: init_dependent_def)
  have "experiment_run f (Some (fe(name := v))) re t noise r
           = experiment_run f (Some (fe(name := v'))) re t noise r"
    unfolding experiment_run_def lmm_experiment_split [OF assms(1)] sum.case simulate_def
      lmm_closure.simps assms(1) list.case Let_def option.case hi init
      add_fixed_effects_other_key [OF nin, of fe v _ _ v']
    by (rule refl)
  with ex nin show ?thesis by blast
qed

theorem C10_name_not_starting_lower_case_witness:
  "\<not> starts_lower ''X1'' \<and>
   extract_variable_names ''y ~ X1 + x2'' = Inr (''y'', [''x2''], []) \<and>
   fst (experiment_run ''y ~ X1 + x2'' (Some [''x2'' \<mapsto> 3, ''X1'' \<mapsto> 2]) None
          \<lparr>nrows = 2, cols = [(''X1'', [Num 1, Num 3]), (''x2'', [Num 1, Num 1])]\<rparr> 0 (\<lambda>n. 1))
     = Inr \<lparr>nrows = 2, cols = [(''X1'', [Num 1, Num 3]), (''x2'', [Num 1, Num 1]),
                                 (''y'', [Num 3, Num 3])]\<rparr> \<and>
   fst (experiment_run ''y ~ X1 + x2'' (Some [''x2'' \<mapsto> 3, ''X1'' \<mapsto> 2]) None
          \<lparr>nrows = 2, cols = [(''X1'', [Num 1, Num 3]), (''x2'', [Num 1, Num 1])]\<rparr> 0 (\<lambda>n. 1))
     = fst (experiment_run ''y ~ X1 + x2'' (Some [''x2'' \<mapsto> 3]) None
          \<lparr>nrows = 2, cols = [(''X1'', [Num 1, Num 3]), (''x2'', [Num 1, Num 1])]\<rparr> 0 (\<lambda>n. 1))"
  using C10_name_not_starting_lower_case [of "''y ~ X1 + x2''" "''y ''" "'' X1 + x2''" "''X1''"
      "[''x2'' \<mapsto> 3]" "Some 2" None
      "\<lparr>nrows = 2, cols = [(''X1'', [Num 1, Num 3]), (''x2'', [Num 1, Num 1])]\<rparr>" 0 "\<lambda>n. 1" None]
  by (simp add: parse_defs run_defs starts_lower_def)

end
